theory Spec2Isabelle
  imports
    Complex_Main
    "HOL-Library.Char_ord"
    "HOL-Library.List_Lexorder"
    "HOL-Library.AList"
begin

section \<open>Numbers, rounding and errors\<close>

text \<open>
  Amounts of money, prices and share counts are Python numbers.  They are modelled as
  exact rationals: \<open>a // b\<close> is the floor of the quotient and raises
  \<open>ZeroDivisionError\<close> when \<open>b\<close> is zero, and \<open>round(x, 2)\<close> rounds to the nearest
  hundredth, a tie going to the even neighbour as Python's \<open>round\<close> does.
\<close>

datatype error =
    ZeroDivisionError
  | KeyError
  | ValueError_no_stop_loss string
  | ValueError_nan_stop_loss string

definition round_half_even :: "rat \<Rightarrow> int" where
  "round_half_even x =
     (let f = \<lfloor>x\<rfloor>; d = x - of_int f
      in if d < 1 / 2 then f else if 1 / 2 < d then f + 1 else if even f then f else f + 1)"

definition py_round2 :: "rat \<Rightarrow> rat" where
  "py_round2 x = of_int (round_half_even (x * 100)) / 100"

definition floordiv :: "rat \<Rightarrow> rat \<Rightarrow> error + rat" where
  "floordiv a b = (if b = 0 then Inl ZeroDivisionError else Inr (of_int \<lfloor>a / b\<rfloor>))"

section \<open>position\_size.py\<close>

subsection \<open>Candidates and buying decisions\<close>

datatype entry_type = Long | Short

text \<open>A stop loss is a number or NaN; a candidate without the key has \<open>None\<close>.\<close>

datatype pynum = Num rat | NaN

record candidate =
  symbol :: string
  entry_type :: entry_type
  price :: rat
  stop_loss :: "pynum option"

text \<open>The dictionary built by \<open>_define_symbol_to_buy\<close>.\<close>

record symbol_to_buy =
  b_symbol :: string
  b_entry_type :: entry_type
  shares_count :: rat
  b_price :: rat
  trx_value :: rat
  fee :: rat

subsection \<open>PositionSize\<close>

text \<open>
  \<open>sort_type\<close> is a string in the source; any value other than the four named ones leaves
  the candidates in the order given.  \<open>random.shuffle\<close> draws a permutation: the draw is
  the field \<open>shuffle\<close> of the sizer.
\<close>

datatype sort_type = Alphabetically | Random | Cheapest | Expensive | Other_sort

record position_size =
  fee_perc :: rat
  min_fee :: rat
  sort_type :: sort_type
  shuffle :: "candidate list \<Rightarrow> candidate list"

definition calculate_fee :: "'a position_size_scheme \<Rightarrow> rat \<Rightarrow> rat" where
  "calculate_fee self transaction_value =
     (let fee0 = transaction_value * fee_perc self;
          fee1 = (if fee0 < min_fee self then min_fee self else fee0)
      in py_round2 fee1)"

definition sort_candidates :: "'a position_size_scheme \<Rightarrow> candidate list \<Rightarrow> candidate list" where
  "sort_candidates self candidates =
     (case sort_type self of
        Alphabetically \<Rightarrow> sort_key symbol candidates
      | Random \<Rightarrow> shuffle self candidates
      | Cheapest \<Rightarrow> sort_key price candidates
      | Expensive \<Rightarrow> rev (sort_key price (rev candidates))
      | Other_sort \<Rightarrow> candidates)"

definition get_shares_count :: "'a position_size_scheme \<Rightarrow> rat \<Rightarrow> rat \<Rightarrow> error + rat" where
  "get_shares_count self money p = floordiv money (p + p * fee_perc self)"

definition define_symbol_to_buy :: "candidate \<Rightarrow> rat \<Rightarrow> rat \<Rightarrow> rat \<Rightarrow> symbol_to_buy" where
  "define_symbol_to_buy c sc tv expected_fee =
     \<lparr>b_symbol = symbol c, b_entry_type = entry_type c, shares_count = sc,
      b_price = price c, trx_value = tv, fee = expected_fee\<rparr>"

subsection \<open>MaxFirstEncountered\<close>

fun mfe_loop :: "'a position_size_scheme \<Rightarrow> rat \<Rightarrow> candidate list \<Rightarrow> error + symbol_to_buy list" where
  "mfe_loop self available_money_at_time [] = Inr []"
| "mfe_loop self available_money_at_time (c # cs) =
     (case get_shares_count self available_money_at_time (price c) of
        Inl e \<Rightarrow> Inl e
      | Inr sc \<Rightarrow>
          if sc = 0 then mfe_loop self available_money_at_time cs
          else let tv = sc * price c; expected_fee = calculate_fee self tv
               in Inr [define_symbol_to_buy c sc tv expected_fee])"

definition mfe_decide_what_to_buy ::
  "'a position_size_scheme \<Rightarrow> rat \<Rightarrow> candidate list \<Rightarrow> error + symbol_to_buy list" where
  "mfe_decide_what_to_buy self available_money_at_time candidates =
     mfe_loop self available_money_at_time (sort_candidates self candidates)"

subsection \<open>FixedCapitalPerc\<close>

record fixed_capital_perc = position_size +
  capital_perc :: rat

fun fcp_loop ::
  "'a position_size_scheme \<Rightarrow> rat \<Rightarrow> rat \<Rightarrow> candidate list \<Rightarrow> error + symbol_to_buy list" where
  "fcp_loop self single_buy_limit available_money_at_time [] = Inr []"
| "fcp_loop self single_buy_limit available_money_at_time (c # cs) =
     (case (if available_money_at_time < single_buy_limit
            then get_shares_count self available_money_at_time (price c)
            else get_shares_count self single_buy_limit (price c)) of
        Inl e \<Rightarrow> Inl e
      | Inr sc \<Rightarrow>
          if sc = 0 then fcp_loop self single_buy_limit available_money_at_time cs
          else let tv = sc * price c; expected_fee = calculate_fee self tv
               in (case fcp_loop self single_buy_limit
                          (available_money_at_time - (tv + expected_fee)) cs of
                     Inl e \<Rightarrow> Inl e
                   | Inr rest \<Rightarrow> Inr (define_symbol_to_buy c sc tv expected_fee # rest)))"

definition fcp_decide_what_to_buy ::
  "'a fixed_capital_perc_scheme \<Rightarrow> rat \<Rightarrow> candidate list \<Rightarrow> rat \<Rightarrow> error + symbol_to_buy list" where
  "fcp_decide_what_to_buy self available_money_at_time candidates capital =
     (let single_buy_limit = py_round2 (capital * capital_perc self)
      in fcp_loop self single_buy_limit available_money_at_time (sort_candidates self candidates))"

subsection \<open>PercentageRisk\<close>

record percentage_risk = position_size +
  perc_risk :: rat

text \<open>
  \<open>not candidate.get('stop_loss', None)\<close> is true for a missing key, for \<open>None\<close> and for a
  zero; NaN is truthy and is caught by the second test.
\<close>

fun pr_loop ::
  "'a percentage_risk_scheme \<Rightarrow> rat \<Rightarrow> rat \<Rightarrow> candidate list \<Rightarrow> error + symbol_to_buy list" where
  "pr_loop self capital available_money_at_time [] = Inr []"
| "pr_loop self capital available_money_at_time (c # cs) =
     (case stop_loss c of
        None \<Rightarrow> Inl (ValueError_no_stop_loss (symbol c))
      | Some NaN \<Rightarrow> Inl (ValueError_nan_stop_loss (symbol c))
      | Some (Num sl) \<Rightarrow>
          if sl = 0 then Inl (ValueError_no_stop_loss (symbol c))
          else
            let value_at_risk_per_share = \<bar>price c - sl\<bar>;
                risk_per_transaction = py_round2 (capital * perc_risk self)
            in (case floordiv risk_per_transaction value_at_risk_per_share of
                  Inl e \<Rightarrow> Inl e
                | Inr theoretical_shares_count \<Rightarrow>
                    let theoretical_trx_value = theoretical_shares_count * price c
                    in (case (if available_money_at_time < theoretical_trx_value
                              then get_shares_count self available_money_at_time (price c)
                              else get_shares_count self theoretical_trx_value (price c)) of
                          Inl e \<Rightarrow> Inl e
                        | Inr sc \<Rightarrow>
                            if sc = 0 then pr_loop self capital available_money_at_time cs
                            else
                              let real_trx_value = sc * price c;
                                  expected_fee = calculate_fee self real_trx_value
                              in (case pr_loop self capital
                                         (available_money_at_time - (real_trx_value + expected_fee)) cs of
                                    Inl e \<Rightarrow> Inl e
                                  | Inr rest \<Rightarrow>
                                      Inr (define_symbol_to_buy c sc real_trx_value expected_fee # rest)))))"

definition pr_decide_what_to_buy ::
  "'a percentage_risk_scheme \<Rightarrow> rat \<Rightarrow> candidate list \<Rightarrow> rat \<Rightarrow> error + symbol_to_buy list" where
  "pr_decide_what_to_buy self available_money_at_time candidates capital =
     pr_loop self capital available_money_at_time (sort_candidates self candidates)"

section \<open>backtester.py\<close>

subsection \<open>Signals and state\<close>

text \<open>
  A trading day is the text of its timestamp (\<open>str(ds)\<close>, such as
  \<open>2010-09-28 00:00:00\<close>), whose text order is the order of the days.  After
  \<open>_prepare_signal\<close> the signals of a symbol are dictionaries from days to values, one per
  column of the frame; they are one list of rows here, in the order of the frame's index.
  \<open>close\<close> is the column named by \<open>price_label\<close>.  Dictionaries are association lists in
  insertion order.
\<close>

type_synonym day = string

record signal_row =
  close :: rat
  entry_long :: int
  exit_long :: int
  entry_short :: int
  exit_short :: int

type_synonym signal_frame = "(day \<times> signal_row) list"

record backtester =
  signals :: "(string \<times> signal_frame) list"
  init_capital :: rat
  bt_fee_perc :: rat
  bt_min_fee :: rat

definition Backtester_init :: "(string \<times> signal_frame) list \<Rightarrow> rat \<Rightarrow> backtester" where
  "Backtester_init sigs capital =
     \<lparr>signals = sigs, init_capital = capital, bt_fee_perc = 38 / 10000, bt_min_fee = 4\<rparr>"

record holding =
  cnt :: rat
  trx_id :: string

record trade =
  buy_ds :: day
  trade_type :: entry_type
  trx_value_no_fee :: rat
  trx_value_gross :: rat
  sell_ds :: "day option"
  sell_value_no_fee :: "rat option"
  sell_value_gross :: "rat option"

record backtest_state =
  owned_shares :: "(string \<times> holding) list"
  available_money :: rat
  trades :: "(string \<times> trade) list"
  account_value :: "(day \<times> rat) list"
  net_account_value :: "(day \<times> rat) list"
  rate_of_return :: "(day \<times> rat) list"

definition reset_backtest_state :: "backtester \<Rightarrow> backtest_state \<Rightarrow> backtest_state" where
  "reset_backtest_state self s =
     s\<lparr>owned_shares := [], available_money := init_capital self, trades := [],
       account_value := [], net_account_value := [], rate_of_return := []\<rparr>"

definition lookup_frame :: "backtester \<Rightarrow> string \<Rightarrow> error + signal_frame" where
  "lookup_frame self smbl =
     (case map_of (signals self) smbl of None \<Rightarrow> Inl KeyError | Some frame \<Rightarrow> Inr frame)"

definition lookup_day :: "signal_frame \<Rightarrow> day \<Rightarrow> error + signal_row" where
  "lookup_day frame ds = (case map_of frame ds of None \<Rightarrow> Inl KeyError | Some row \<Rightarrow> Inr row)"

definition lookup_row :: "backtester \<Rightarrow> string \<Rightarrow> day \<Rightarrow> error + signal_row" where
  "lookup_row self smbl ds =
     (case lookup_frame self smbl of Inl e \<Rightarrow> Inl e | Inr frame \<Rightarrow> lookup_day frame ds)"

subsection \<open>Fees and buying decisions\<close>

definition bt_calculate_fee :: "backtester \<Rightarrow> rat \<Rightarrow> rat" where
  "bt_calculate_fee self transaction_value =
     (let fee0 = transaction_value * bt_fee_perc self;
          fee1 = (if fee0 < bt_min_fee self then bt_min_fee self else fee0)
      in py_round2 fee1)"

fun buying_loop :: "backtester \<Rightarrow> rat \<Rightarrow> candidate list \<Rightarrow> error + symbol_to_buy list" where
  "buying_loop self available_money_at_time [] = Inr []"
| "buying_loop self available_money_at_time (c # cs) =
     (case floordiv available_money_at_time (price c + price c * bt_fee_perc self) of
        Inl e \<Rightarrow> Inl e
      | Inr sc \<Rightarrow>
          if sc = 0 then buying_loop self available_money_at_time cs
          else let tv = sc * price c; expected_fee = bt_calculate_fee self tv
               in (case buying_loop self (available_money_at_time - (tv + expected_fee)) cs of
                     Inl e \<Rightarrow> Inl e
                   | Inr rest \<Rightarrow>
                       Inr (\<lparr>b_symbol = symbol c, b_entry_type = entry_type c, shares_count = sc,
                             b_price = price c, trx_value = tv, fee = expected_fee\<rparr> # rest)))"

definition buying_decisions ::
  "backtester \<Rightarrow> backtest_state \<Rightarrow> candidate list \<Rightarrow> error + symbol_to_buy list" where
  "buying_decisions self s purchease_candidates =
     buying_loop self (available_money s * 1) purchease_candidates"

subsection \<open>Selling and buying\<close>

definition sell ::
  "backtester \<Rightarrow> backtest_state \<Rightarrow> string \<Rightarrow> entry_type \<Rightarrow> signal_frame \<Rightarrow> day
     \<Rightarrow> error + backtest_state" where
  "sell self s smbl exit_type prices ds =
     (case lookup_day prices ds of
        Inl e \<Rightarrow> Inl e
      | Inr row \<Rightarrow>
          (case map_of (owned_shares s) smbl of
             None \<Rightarrow> Inl KeyError
           | Some h \<Rightarrow>
               let p = close row;
                   sc = cnt h;
                   sell_fee = bt_calculate_fee self (sc * p);
                   tv = sc * p;
                   trx_value_gross = (case exit_type of Long \<Rightarrow> tv - sell_fee | Short \<Rightarrow> tv + sell_fee)
               in (case map_of (trades s) (trx_id h) of
                     None \<Rightarrow> Inl KeyError
                   | Some t \<Rightarrow>
                       Inr (s\<lparr>available_money := available_money s + trx_value_gross,
                              trades := AList.update (trx_id h)
                                (t\<lparr>sell_ds := Some ds, sell_value_no_fee := Some tv,
                                   sell_value_gross := Some trx_value_gross\<rparr>) (trades s),
                              owned_shares := AList.delete smbl (owned_shares s)\<rparr>))))"

definition entry_type_str :: "entry_type \<Rightarrow> string" where
  "entry_type_str t = (case t of Long \<Rightarrow> ''long'' | Short \<Rightarrow> ''short'')"

definition make_trx_id :: "day \<Rightarrow> string \<Rightarrow> entry_type \<Rightarrow> string" where
  "make_trx_id ds smbl t = take 10 ds @ ''_'' @ smbl @ ''_'' @ entry_type_str t"

definition buy :: "backtest_state \<Rightarrow> symbol_to_buy \<Rightarrow> day \<Rightarrow> backtest_state" where
  "buy s trx ds =
     (let tid = make_trx_id ds (b_symbol trx) (b_entry_type trx)
      in case b_entry_type trx of
           Long \<Rightarrow>
             let gross = trx_value trx + fee trx
             in s\<lparr>owned_shares :=
                    AList.update (b_symbol trx) \<lparr>cnt = shares_count trx, trx_id = tid\<rparr> (owned_shares s),
                  available_money := available_money s - gross,
                  trades := AList.update tid
                    \<lparr>buy_ds = ds, trade_type = Long, trx_value_no_fee = trx_value trx,
                     trx_value_gross = gross, sell_ds = None, sell_value_no_fee = None,
                     sell_value_gross = None\<rparr> (trades s)\<rparr>
         | Short \<Rightarrow>
             let gross = trx_value trx - fee trx
             in s\<lparr>owned_shares :=
                    AList.update (b_symbol trx) \<lparr>cnt = - shares_count trx, trx_id = tid\<rparr> (owned_shares s),
                  available_money := available_money s + gross,
                  trades := AList.update tid
                    \<lparr>buy_ds = ds, trade_type = Short, trx_value_no_fee = trx_value trx,
                     trx_value_gross = gross, sell_ds = None, sell_value_no_fee = None,
                     sell_value_gross = None\<rparr> (trades s)\<rparr>)"

fun buy_all :: "backtest_state \<Rightarrow> symbol_to_buy list \<Rightarrow> day \<Rightarrow> backtest_state" where
  "buy_all s [] ds = s"
| "buy_all s (trx # rest) ds = buy_all (buy s trx ds) rest ds"

definition define_candidate :: "backtester \<Rightarrow> string \<Rightarrow> day \<Rightarrow> entry_type \<Rightarrow> error + candidate" where
  "define_candidate self smbl ds t =
     (case lookup_row self smbl ds of
        Inl e \<Rightarrow> Inl e
      | Inr row \<Rightarrow> Inr \<lparr>symbol = smbl, entry_type = t, price = close row, stop_loss = None\<rparr>)"

subsection \<open>The day loop\<close>

definition exit_step :: "backtester \<Rightarrow> day \<Rightarrow> backtest_state \<Rightarrow> string \<Rightarrow> error + backtest_state" where
  "exit_step self ds s smbl =
     (case lookup_frame self smbl of
        Inl e \<Rightarrow> Inl e
      | Inr frame \<Rightarrow>
          (case lookup_day frame ds of
             Inl e \<Rightarrow> Inl e
           | Inr row \<Rightarrow>
               if exit_long row = 1 then sell self s smbl Long frame ds
               else if exit_short row = 1 then sell self s smbl Short frame ds
               else Inr s))"

fun exit_loop :: "backtester \<Rightarrow> day \<Rightarrow> backtest_state \<Rightarrow> string list \<Rightarrow> error + backtest_state" where
  "exit_loop self ds s [] = Inr s"
| "exit_loop self ds s (smbl # syms) =
     (case exit_step self ds s smbl of Inl e \<Rightarrow> Inl e | Inr s' \<Rightarrow> exit_loop self ds s' syms)"

definition exit_pass :: "backtester \<Rightarrow> day \<Rightarrow> backtest_state \<Rightarrow> error + backtest_state" where
  "exit_pass self ds s = exit_loop self ds s (map fst (owned_shares s))"

fun collect_candidates :: "backtester \<Rightarrow> day \<Rightarrow> string list \<Rightarrow> error + candidate list" where
  "collect_candidates self ds [] = Inr []"
| "collect_candidates self ds (smbl # syms) =
     (case lookup_row self smbl ds of
        Inl e \<Rightarrow> Inl e
      | Inr row \<Rightarrow>
          (case (if entry_long row = 1 then map_sum id (\<lambda>c. [c]) (define_candidate self smbl ds Long)
                 else if entry_short row = 1 then map_sum id (\<lambda>c. [c]) (define_candidate self smbl ds Short)
                 else Inr []) of
             Inl e \<Rightarrow> Inl e
           | Inr found \<Rightarrow>
               (case collect_candidates self ds syms of
                  Inl e \<Rightarrow> Inl e
                | Inr rest \<Rightarrow> Inr (found @ rest))))"

fun sum_holdings :: "backtester \<Rightarrow> day \<Rightarrow> rat \<Rightarrow> (string \<times> holding) list \<Rightarrow> error + rat" where
  "sum_holdings self ds acc [] = Inr acc"
| "sum_holdings self ds acc ((smbl, vals) # rest) =
     (case lookup_row self smbl ds of
        Inl e \<Rightarrow> Inl e
      | Inr row \<Rightarrow> sum_holdings self ds (acc + cnt vals * close row) rest)"

definition summarize_day :: "backtester \<Rightarrow> backtest_state \<Rightarrow> day \<Rightarrow> error + backtest_state" where
  "summarize_day self s ds =
     (case sum_holdings self ds 0 (owned_shares s) of
        Inl e \<Rightarrow> Inl e
      | Inr av \<Rightarrow>
          let nav = av + available_money s
          in if init_capital self = 0 then Inl ZeroDivisionError
             else Inr (s\<lparr>account_value := AList.update ds av (account_value s),
                         net_account_value := AList.update ds nav (net_account_value s),
                         rate_of_return := AList.update ds
                           (((nav - init_capital self) / init_capital self) * 100)
                           (rate_of_return s)\<rparr>))"

definition run_day ::
  "backtester \<Rightarrow> (day \<times> string list) list \<Rightarrow> backtest_state \<Rightarrow> day \<Rightarrow> error + backtest_state" where
  "run_day self symbols_in_day s ds =
     (case exit_pass self ds s of
        Inl e \<Rightarrow> Inl e
      | Inr s1 \<Rightarrow>
          (case map_of symbols_in_day ds of
             None \<Rightarrow> Inl KeyError
           | Some syms \<Rightarrow>
               (case collect_candidates self ds syms of
                  Inl e \<Rightarrow> Inl e
                | Inr purchease_candidates \<Rightarrow>
                    (case buying_decisions self s1 purchease_candidates of
                       Inl e \<Rightarrow> Inl e
                     | Inr symbols_to_buy \<Rightarrow> summarize_day self (buy_all s1 symbols_to_buy ds) ds))))"

fun run_days ::
  "backtester \<Rightarrow> (day \<times> string list) list \<Rightarrow> backtest_state \<Rightarrow> day list \<Rightarrow> error + backtest_state" where
  "run_days self symbols_in_day s [] = Inr s"
| "run_days self symbols_in_day s (ds # days) =
     (case run_day self symbols_in_day s ds of
        Inl e \<Rightarrow> Inl e
      | Inr s' \<Rightarrow> run_days self symbols_in_day s' days)"

definition add_symbol_day :: "string \<Rightarrow> day \<Rightarrow> (day \<times> string list) list \<Rightarrow> (day \<times> string list) list" where
  "add_symbol_day sym_n ds d =
     (case map_of d ds of
        Some syms \<Rightarrow> AList.update ds (syms @ [sym_n]) d
      | None \<Rightarrow> AList.update ds [sym_n] d)"

definition symbols_in_day_of :: "backtester \<Rightarrow> (day \<times> string list) list" where
  "symbols_in_day_of self =
     fold (\<lambda>(sym_n, sym_v) d. fold (add_symbol_day sym_n) (map fst sym_v) d) (signals self) []"

text \<open>\<open>days[:test_days]\<close>, taken only when \<open>test_days\<close> is neither \<open>None\<close> nor zero.\<close>

definition slice_days :: "int option \<Rightarrow> day list \<Rightarrow> day list" where
  "slice_days test_days days =
     (case test_days of
        None \<Rightarrow> days
      | Some n \<Rightarrow>
          if n = 0 then days
          else if 0 < n then take (nat n) days
          else take (nat (int (length days) + n)) days)"

text \<open>The frame returned by \<open>_run_output\<close>: one row per day with the three columns.\<close>

definition run_output :: "backtest_state \<Rightarrow> (day \<times> rat \<times> rat \<times> rat) list" where
  "run_output s =
     map (\<lambda>((d, av), (_, nav), (_, ror)). (d, av, nav, ror))
       (zip (account_value s) (zip (net_account_value s) (rate_of_return s)))"

text \<open>
  \<open>run\<close> starts from the attributes left by an earlier call (or none) and returns the
  valuation frame and the trades; the attributes it leaves are returned with them.
\<close>

definition run ::
  "backtester \<Rightarrow> backtest_state \<Rightarrow> int option
     \<Rightarrow> error + (backtest_state \<times> (day \<times> rat \<times> rat \<times> rat) list \<times> (string \<times> trade) list)" where
  "run self before test_days =
     (let s0 = reset_backtest_state self before;
          symbols_in_day = symbols_in_day_of self;
          days = slice_days test_days (sort (map fst symbols_in_day))
      in case run_days self symbols_in_day s0 days of
           Inl e \<Rightarrow> Inl e
         | Inr s \<Rightarrow> Inr (s, run_output s, trades s))"

section \<open>Definitions used in the statements\<close>

subsection \<open>Sizers with the default fee settings\<close>

text \<open>
  The constructors' defaults: \<open>fee_perc=0.0038\<close>, \<open>min_fee=4\<close>,
  \<open>sort_type='alphabetically'\<close>.
\<close>

definition default_position_size :: position_size where
  "default_position_size =
     \<lparr>fee_perc = 38 / 10000, min_fee = 4, sort_type = Alphabetically, shuffle = id\<rparr>"

definition FixedCapitalPerc_init :: "rat \<Rightarrow> sort_type \<Rightarrow> fixed_capital_perc" where
  "FixedCapitalPerc_init cp st =
     \<lparr>fee_perc = 38 / 10000, min_fee = 4, sort_type = st, shuffle = id, capital_perc = cp\<rparr>"

definition PercentageRisk_init :: "rat \<Rightarrow> percentage_risk" where
  "PercentageRisk_init pr =
     \<lparr>fee_perc = 38 / 10000, min_fee = 4, sort_type = Alphabetically, shuffle = id,
      perc_risk = pr\<rparr>"

definition candidate_of :: "string \<Rightarrow> entry_type \<Rightarrow> rat \<Rightarrow> pynum option \<Rightarrow> candidate" where
  "candidate_of smbl t p sl = \<lparr>symbol = smbl, entry_type = t, price = p, stop_loss = sl\<rparr>"

subsection \<open>The affordability formula and the fills it gives\<close>


definition fill_of :: "'a position_size_scheme \<Rightarrow> candidate \<Rightarrow> rat \<Rightarrow> symbol_to_buy" where
  "fill_of self c n =
     \<lparr>b_symbol = symbol c, b_entry_type = entry_type c, shares_count = n, b_price = price c,
      trx_value = n * price c, fee = calculate_fee self (n * price c)\<rparr>"

definition spent :: "symbol_to_buy list \<Rightarrow> rat" where
  "spent fills = (\<Sum>f\<leftarrow>fills. trx_value f + fee f)"



subsection \<open>The common shape of the cumulative loops\<close>

text \<open>
  The loops of FixedCapitalPerc and PercentageRisk differ only in how the share count
  of a candidate is found from the money left.  \<open>sizing_loop\<close> is that shape with the
  share count as a parameter; \<open>fcp_shares\<close> and \<open>pr_shares\<close> are the two share counts.
  The lemmas \<open>fcp_loop_sizing\<close> and \<open>pr_loop_sizing\<close> below show that the loops of the
  source are instances of it.
\<close>

fun sizing_loop ::
  "'a position_size_scheme \<Rightarrow> (rat \<Rightarrow> candidate \<Rightarrow> error + rat) \<Rightarrow> rat \<Rightarrow> candidate list
     \<Rightarrow> error + symbol_to_buy list" where
  "sizing_loop self shares_for money [] = Inr []"
| "sizing_loop self shares_for money (c # cs) =
     (case shares_for money c of
        Inl e \<Rightarrow> Inl e
      | Inr n \<Rightarrow>
          if n = 0 then sizing_loop self shares_for money cs
          else (case sizing_loop self shares_for (money - spent [fill_of self c n]) cs of
                  Inl e \<Rightarrow> Inl e
                | Inr rest \<Rightarrow> Inr (fill_of self c n # rest)))"

definition fcp_shares :: "'a position_size_scheme \<Rightarrow> rat \<Rightarrow> rat \<Rightarrow> candidate \<Rightarrow> error + rat" where
  "fcp_shares self limit money c = get_shares_count self (min money limit) (price c)"

definition pr_shares :: "'a percentage_risk_scheme \<Rightarrow> rat \<Rightarrow> rat \<Rightarrow> candidate \<Rightarrow> error + rat" where
  "pr_shares self capital money c =
     (case stop_loss c of
        None \<Rightarrow> Inl (ValueError_no_stop_loss (symbol c))
      | Some NaN \<Rightarrow> Inl (ValueError_nan_stop_loss (symbol c))
      | Some (Num sl) \<Rightarrow>
          if sl = 0 then Inl (ValueError_no_stop_loss (symbol c))
          else (case floordiv (py_round2 (capital * perc_risk self)) \<bar>price c - sl\<bar> of
                  Inl e \<Rightarrow> Inl e
                | Inr t \<Rightarrow> get_shares_count self (min money (t * price c)) (price c)))"

subsection \<open>Stop-loss errors\<close>

definition is_stop_loss_error :: "error + symbol_to_buy list \<Rightarrow> bool" where
  "is_stop_loss_error r =
     (case r of
        Inl (ValueError_no_stop_loss _) \<Rightarrow> True
      | Inl (ValueError_nan_stop_loss _) \<Rightarrow> True
      | _ \<Rightarrow> False)"

definition rejected_stop_loss :: "candidate \<Rightarrow> bool" where
  "rejected_stop_loss c =
     (stop_loss c = None \<or> stop_loss c = Some (Num 0) \<or> stop_loss c = Some NaN)"

subsection \<open>The four-day scenario\<close>

definition signal_row_of :: "rat \<Rightarrow> int \<Rightarrow> int \<Rightarrow> int \<Rightarrow> int \<Rightarrow> signal_row" where
  "signal_row_of p el xl es xs =
     \<lparr>close = p, entry_long = el, exit_long = xl, entry_short = es, exit_short = xs\<rparr>"

text \<open>
  One symbol, closes 100, 210, 90, 80; entry\_long on day 1, exit\_long on day 2,
  entry\_short and exit\_long on day 3, exit\_short on day 4.
\<close>

definition test_sigs_1 :: "(string \<times> signal_frame) list" where
  "test_sigs_1 =
     [(''TEST_SIGS_1'',
       [(''2010-09-28 00:00:00'', signal_row_of 100 1 0 0 0),
        (''2010-09-29 00:00:00'', signal_row_of 210 0 1 0 0),
        (''2010-09-30 00:00:00'', signal_row_of 90 0 1 1 0),
        (''2010-10-01 00:00:00'', signal_row_of 80 0 0 0 1)])]"

definition fresh_state :: backtest_state where
  "fresh_state =
     \<lparr>owned_shares = [], available_money = 0, trades = [], account_value = [],
      net_account_value = [], rate_of_return = []\<rparr>"

text \<open>Cash, account value and NAV recorded for a day.\<close>

definition day_summary :: "day \<Rightarrow> backtest_state \<Rightarrow> rat \<times> rat option \<times> rat option" where
  "day_summary ds s =
     (available_money s, map_of (account_value s) ds, map_of (net_account_value s) ds)"

subsection \<open>The exit pass\<close>



text \<open>
  A symbol entered short at 100 on the first day, with \<open>exit_long\<close> set at 80 on the
  second; and the state the run leaves after the first day.
\<close>

definition short_closed_by_exit_long :: "(string \<times> signal_frame) list" where
  "short_closed_by_exit_long =
     [(''S'',
       [(''2010-09-28 00:00:00'', signal_row_of 100 0 0 1 0),
        (''2010-09-29 00:00:00'', signal_row_of 80 0 1 0 0)])]"

definition short_held_state :: backtest_state where
  "short_held_state =
     \<lparr>owned_shares = [(''S'', \<lparr>cnt = - 4, trx_id = ''2010-09-28_S_short''\<rparr>)],
      available_money = 896,
      trades = [(''2010-09-28_S_short'',
                 \<lparr>buy_ds = ''2010-09-28 00:00:00'', trade_type = Short, trx_value_no_fee = 400,
                  trx_value_gross = 396, sell_ds = None, sell_value_no_fee = None,
                  sell_value_gross = None\<rparr>)],
      account_value = [(''2010-09-28 00:00:00'', - 400)],
      net_account_value = [(''2010-09-28 00:00:00'', 496)],
      rate_of_return = [(''2010-09-28 00:00:00'', - 4 / 5)]\<rparr>"



section \<open>Lemmas\<close>

subsection \<open>Rounding\<close>







subsection \<open>Share counts\<close>





subsection \<open>MaxFirstEncountered\<close>


lemma mfe_loop_nonzero:
  "mfe_loop self money cs = Inr fills \<Longrightarrow> f \<in> set fills \<Longrightarrow> shares_count f \<noteq> 0"
  by (induction cs arbitrary: fills)
     (auto simp add: define_symbol_to_buy_def Let_def split: sum.splits if_splits)

subsection \<open>The cumulative loops\<close>

lemma spent_simps [simp]:
  "spent [] = 0"
  "spent (f # fs) = trx_value f + fee f + spent fs"
  "spent (fs @ gs) = spent fs + spent gs"
  by (simp_all add: spent_def)

lemma fcp_loop_sizing:
  "fcp_loop self limit money cs = sizing_loop self (fcp_shares self limit) money cs"
  by (induction cs arbitrary: money)
     (auto simp add: fcp_shares_def fill_of_def define_symbol_to_buy_def Let_def min_def
           split: sum.splits)

lemma pr_loop_sizing:
  "pr_loop self capital money cs = sizing_loop self (pr_shares self capital) money cs"
  by (induction cs arbitrary: money)
     (auto simp add: pr_shares_def fill_of_def define_symbol_to_buy_def Let_def min_def
           split: sum.splits option.splits pynum.splits)

lemma sizing_loop_nonzero:
  "sizing_loop self shares_for money cs = Inr fills \<Longrightarrow> f \<in> set fills \<Longrightarrow> shares_count f \<noteq> 0"
proof (induction cs arbitrary: money fills)
  case Nil
  then show ?case by simp
next
  case (Cons c cs)
  then show ?case
    by (auto simp add: fill_of_def split: sum.splits if_splits)
qed

lemma sizing_loop_append:
  "sizing_loop self shares_for money (xs @ ys) =
     (case sizing_loop self shares_for money xs of
        Inl e \<Rightarrow> Inl e
      | Inr fs \<Rightarrow>
          (case sizing_loop self shares_for (money - spent fs) ys of
             Inl e \<Rightarrow> Inl e
           | Inr gs \<Rightarrow> Inr (fs @ gs)))"
proof (induction xs arbitrary: money)
  case Nil
  then show ?case by (simp split: sum.splits)
next
  case (Cons c xs)
  show ?case
    by (simp add: Cons.IH diff_diff_eq split: sum.splits)
qed


text \<open>
  The loop fails exactly when it reaches a candidate whose share count fails: every
  candidate before it has been sized, and the failure is the one of that candidate at
  the money then left.
\<close>

lemma sizing_loop_error_reached:
  "sizing_loop self shares_for money cs = Inl e \<Longrightarrow>
     \<exists>pre c post fs. cs = pre @ c # post \<and> sizing_loop self shares_for money pre = Inr fs
        \<and> shares_for (money - spent fs) c = Inl e"
proof (induction cs arbitrary: money)
  case Nil
  then show ?case by simp
next
  case (Cons c cs)
  show ?case
  proof (cases "shares_for money c")
    case (Inl e')
    with Cons.prems have "e' = e" by simp
    with Inl have "c # cs = [] @ c # cs \<and> sizing_loop self shares_for money [] = Inr []
        \<and> shares_for (money - spent []) c = Inl e"
      by simp
    then show ?thesis by blast
  next
    case (Inr n)
    show ?thesis
    proof (cases "n = 0")
      case True
      with Inr Cons.prems have "sizing_loop self shares_for money cs = Inl e" by simp
      from Cons.IH[OF this] obtain pre c' post fs where
        h: "cs = pre @ c' # post" "sizing_loop self shares_for money pre = Inr fs"
           "shares_for (money - spent fs) c' = Inl e" by blast
      with Inr True have "c # cs = (c # pre) @ c' # post
          \<and> sizing_loop self shares_for money (c # pre) = Inr fs
          \<and> shares_for (money - spent fs) c' = Inl e"
        by simp
      then show ?thesis by blast
    next
      case False
      let ?m = "money - spent [fill_of self c n]"
      from Inr False Cons.prems have "sizing_loop self shares_for ?m cs = Inl e"
        by (simp split: sum.splits)
      from Cons.IH[OF this] obtain pre c' post fs where
        h: "cs = pre @ c' # post" "sizing_loop self shares_for ?m pre = Inr fs"
           "shares_for (?m - spent fs) c' = Inl e" by blast
      with Inr False have "c # cs = (c # pre) @ c' # post
          \<and> sizing_loop self shares_for money (c # pre) = Inr (fill_of self c n # fs)
          \<and> shares_for (money - spent (fill_of self c n # fs)) c' = Inl e"
        by (simp add: diff_diff_eq)
      then show ?thesis by blast
    qed
  qed
qed

lemma sizing_loop_error_iff:
  "sizing_loop self shares_for money cs = Inl e \<longleftrightarrow>
     (\<exists>pre c post fs. cs = pre @ c # post \<and> sizing_loop self shares_for money pre = Inr fs
        \<and> shares_for (money - spent fs) c = Inl e)"
proof
  assume "sizing_loop self shares_for money cs = Inl e"
  then show "\<exists>pre c post fs. cs = pre @ c # post \<and> sizing_loop self shares_for money pre = Inr fs
        \<and> shares_for (money - spent fs) c = Inl e"
    by (rule sizing_loop_error_reached)
next
  assume "\<exists>pre c post fs. cs = pre @ c # post \<and> sizing_loop self shares_for money pre = Inr fs
        \<and> shares_for (money - spent fs) c = Inl e"
  then obtain pre c post fs where
    "cs = pre @ c # post" "sizing_loop self shares_for money pre = Inr fs"
    "shares_for (money - spent fs) c = Inl e" by blast
  then show "sizing_loop self shares_for money cs = Inl e"
    by (simp add: sizing_loop_append)
qed

lemma sizing_loop_Inr_all:
  "sizing_loop self shares_for money cs = Inr fills \<Longrightarrow> c \<in> set cs \<Longrightarrow>
     \<exists>m n. shares_for m c = Inr n"
proof (induction cs arbitrary: money fills)
  case Nil
  then show ?case by simp
next
  case (Cons a cs)
  then show ?case
    by (fastforce split: sum.splits if_splits)
qed


subsection \<open>PercentageRisk: the share count of one candidate\<close>

lemma pr_shares_stop_loss_error:
  "is_stop_loss_error (map_sum id (\<lambda>n. []) (pr_shares self capital money c)) \<longleftrightarrow>
     rejected_stop_loss c"
  by (auto simp add: pr_shares_def is_stop_loss_error_def rejected_stop_loss_def floordiv_def
        get_shares_count_def split: option.splits pynum.splits error.splits sum.splits)

lemma pr_shares_zero_risk:
  "stop_loss c = Some (Num (price c)) \<Longrightarrow> price c \<noteq> 0 \<Longrightarrow>
     pr_shares self capital money c = Inl ZeroDivisionError"
  by (simp add: pr_shares_def floordiv_def)

lemma pr_shares_Inr_risk:
  "pr_shares self capital money c = Inr n \<Longrightarrow> stop_loss c \<noteq> Some (Num (price c))"
  by (auto simp add: pr_shares_def floordiv_def split: option.splits pynum.splits if_splits)

subsection \<open>Resetting the state\<close>

lemma reset_backtest_state_forgets:
  "reset_backtest_state self s1 = reset_backtest_state self s2"
  by (cases s1, cases s2) (simp add: reset_backtest_state_def)

subsection \<open>The exit pass\<close>




text \<open>\<open>short_held_state\<close> is the state of the run after its first day.\<close>

lemma short_held_state_reached:
  "map_sum id (\<lambda>(s, valuation, ledger). s)
     (run (Backtester_init short_closed_by_exit_long 500) fresh_state (Some 1))
   = Inr short_held_state"
  by code_simp

subsection \<open>The buy pass\<close>





section \<open>The claims\<close>

subsection \<open>C1: the exit pass\<close>




subsection \<open>C2: covering a short position\<close>

text \<open>
  C2 says that a short exit of \<open>n\<close> shares at price \<open>p\<close> debits cash by
  \<open>n * p + fee (n * p)\<close>, so that the four-day scenario ends with cash 1024 and NAV 1024.
  The repository's test \<open>test_functional_backtester_4days_TEST_SIGS_1\<close> expects the same
  1024.  \<open>_sell\<close> reads the negative share count of the short holding, so its
  transaction value is \<open>- n * p\<close> and adding the fee gives \<open>- 800 + 4\<close>: the scenario
  ends with cash 1032, account value 0 and NAV 1032.
\<close>

theorem scenario_day_4_cash:
  "map_sum id (\<lambda>(s, valuation, ledger). day_summary ''2010-10-01 00:00:00'' s)
     (run (Backtester_init test_sigs_1 500) fresh_state (Some 4))
   = Inr (1032, Some 0, Some 1032)"
  by code_simp

subsection \<open>C3: cash after the buys of a day\<close>




subsection \<open>C4: the fee\<close>




subsection \<open>C5: MaxFirstEncountered\<close>




subsection \<open>C6: FixedCapitalPerc\<close>




subsection \<open>C7: the stop-loss error of PercentageRisk\<close>

text \<open>
  C7, as amended.  \<open>PercentageRisk.decide_what_to_buy\<close> raises one of its two stop-loss
  errors if and only if some candidate reached in sort order has a stop loss that is
  missing, zero or NaN; a candidate is reached when the loop over the candidates before
  it ends without an error.  The error is the result of the call: no fill list is
  returned.
\<close>

theorem pr_stop_loss_error_iff:
  "is_stop_loss_error (pr_decide_what_to_buy self cash candidates capital) \<longleftrightarrow>
     (\<exists>pre c post fills_pre.
        sort_candidates self candidates = pre @ c # post
      \<and> pr_loop self capital cash pre = Inr fills_pre
      \<and> rejected_stop_loss c)"
proof -
  let ?cs = "sort_candidates self candidates"
  have "is_stop_loss_error (pr_decide_what_to_buy self cash candidates capital) \<longleftrightarrow>
      (\<exists>e. sizing_loop self (pr_shares self capital) cash ?cs = Inl e \<and> is_stop_loss_error (Inl e))"
    by (cases "sizing_loop self (pr_shares self capital) cash ?cs")
       (simp_all add: pr_decide_what_to_buy_def pr_loop_sizing is_stop_loss_error_def)
  also have "\<dots> \<longleftrightarrow> (\<exists>e pre c post fs. ?cs = pre @ c # post
        \<and> sizing_loop self (pr_shares self capital) cash pre = Inr fs
        \<and> pr_shares self capital (cash - spent fs) c = Inl e \<and> is_stop_loss_error (Inl e))"
    unfolding sizing_loop_error_iff by blast
  also have "\<dots> \<longleftrightarrow> (\<exists>pre c post fs. ?cs = pre @ c # post
        \<and> sizing_loop self (pr_shares self capital) cash pre = Inr fs
        \<and> rejected_stop_loss c)"
  proof -
    have "(\<exists>e. pr_shares self capital m c = Inl e \<and> is_stop_loss_error (Inl e))
        \<longleftrightarrow> rejected_stop_loss c" for m c
      using pr_shares_stop_loss_error[of self capital m c]
      by (cases "pr_shares self capital m c") (auto simp add: is_stop_loss_error_def)
    then show ?thesis by blast
  qed
  finally show ?thesis by (simp add: pr_loop_sizing)
qed

text \<open>
  The theorem on two candidates: \<open>a\<close> has a stop loss of 90 at a price of 100 and is
  sized, \<open>b\<close> has none and raises the error.
\<close>

theorem pr_stop_loss_error_iff_witness:
  "pr_decide_what_to_buy (PercentageRisk_init (1 / 100)) 5000
      [candidate_of ''a'' Long 100 (Some (Num 90)), candidate_of ''b'' Long 50 None] 10000
     = Inl (ValueError_no_stop_loss ''b'')
   \<and> (\<exists>pre c post fills_pre.
        sort_candidates (PercentageRisk_init (1 / 100))
          [candidate_of ''a'' Long 100 (Some (Num 90)), candidate_of ''b'' Long 50 None]
          = pre @ c # post
      \<and> pr_loop (PercentageRisk_init (1 / 100)) 10000 5000 pre = Inr fills_pre
      \<and> rejected_stop_loss c)"
proof -
  let ?call = "pr_decide_what_to_buy (PercentageRisk_init (1 / 100)) 5000
      [candidate_of ''a'' Long 100 (Some (Num 90)), candidate_of ''b'' Long 50 None] 10000"
  have r: "?call = Inl (ValueError_no_stop_loss ''b'')"
    by code_simp
  then have "is_stop_loss_error ?call"
    by (simp add: is_stop_loss_error_def)
  with pr_stop_loss_error_iff[of "PercentageRisk_init (1 / 100)" 5000
      "[candidate_of ''a'' Long 100 (Some (Num 90)), candidate_of ''b'' Long 50 None]" 10000] r
  show ?thesis by blast
qed

text \<open>
  C7 as stated lets only a missing or NaN stop loss raise the error.  A stop loss of 0
  is a number and is present, and raises it too.
\<close>

theorem pr_zero_stop_loss_rejected:
  "pr_decide_what_to_buy (PercentageRisk_init (1 / 100)) 1000
       [candidate_of ''a'' Long 10 (Some (Num 0))] 10000 = Inl (ValueError_no_stop_loss ''a'')
   \<and> stop_loss (candidate_of ''a'' Long 10 (Some (Num 0))) \<noteq> None
   \<and> stop_loss (candidate_of ''a'' Long 10 (Some (Num 0))) \<noteq> Some NaN"
  by code_simp

subsection \<open>C8: no fill of zero shares\<close>

text \<open>
  C8, as amended.  Every fill returned by \<open>MaxFirstEncountered\<close>, \<open>FixedCapitalPerc\<close> or
  \<open>PercentageRisk\<close> has a share count other than zero: a candidate whose computed share
  count is zero is skipped.
\<close>

theorem sizers_no_zero_fill:
  assumes "mfe_decide_what_to_buy self1 cash candidates = Inr fills
         \<or> fcp_decide_what_to_buy self2 cash candidates capital = Inr fills
         \<or> pr_decide_what_to_buy self3 cash candidates capital = Inr fills"
  shows "\<forall>f\<in>set fills. shares_count f \<noteq> 0"
  using assms
  by (auto simp add: mfe_decide_what_to_buy_def fcp_decide_what_to_buy_def
        pr_decide_what_to_buy_def fcp_loop_sizing pr_loop_sizing Let_def
      dest: mfe_loop_nonzero sizing_loop_nonzero)

text \<open>
  The theorem on \<open>PercentageRisk\<close> with capital 10000, one percent at risk and cash
  5000: \<open>a\<close> at 100 with a stop loss of 90 gets 9 shares, \<open>b\<close> at 5000 with a stop loss
  of 4000 gets none and is left out.
\<close>

theorem sizers_no_zero_fill_witness:
  "pr_decide_what_to_buy (PercentageRisk_init (1 / 100)) 5000
      [candidate_of ''a'' Long 100 (Some (Num 90)), candidate_of ''b'' Long 5000 (Some (Num 4000))]
      10000
     = Inr [\<lparr>b_symbol = ''a'', b_entry_type = Long, shares_count = 9, b_price = 100,
             trx_value = 900, fee = 4\<rparr>]
   \<and> shares_count \<lparr>b_symbol = ''a'', b_entry_type = Long, shares_count = 9, b_price = 100,
                     trx_value = 900, fee = 4\<rparr> \<noteq> 0"
proof -
  have h: "pr_decide_what_to_buy (PercentageRisk_init (1 / 100)) 5000
      [candidate_of ''a'' Long 100 (Some (Num 90)), candidate_of ''b'' Long 5000 (Some (Num 4000))]
      10000
     = Inr [\<lparr>b_symbol = ''a'', b_entry_type = Long, shares_count = 9, b_price = 100,
             trx_value = 900, fee = 4\<rparr>]"
    by code_simp
  from sizers_no_zero_fill[where ?self1.0 = default_position_size
      and ?self2.0 = "FixedCapitalPerc_init (1 / 10) Alphabetically", OF disjI2, OF disjI2, OF h] h
  show ?thesis by simp
qed

text \<open>
  C8 as stated promises a positive share count.  \<open>FixedCapitalPerc\<close> with capital 1010,
  a tenth of it per trade and cash 101 buys one share of \<open>a\<close> at 100 for 104 with the
  minimum fee, and then sizes \<open>b\<close> at 2 from the cash of \<open>- 3\<close>: a fill of \<open>- 2\<close> shares.
\<close>

theorem fcp_negative_fill:
  "map_sum id (map shares_count)
     (fcp_decide_what_to_buy (FixedCapitalPerc_init (1 / 10) Alphabetically) 101
        [candidate_of ''a'' Long 100 None, candidate_of ''b'' Long 2 None] 1010) = Inr [1, - 2]"
  by code_simp

subsection \<open>C9: run starts from a reset state\<close>

text \<open>
  C9.  \<open>run\<close> is a function of the backtester and \<open>test_days\<close> alone: whatever state an
  earlier call has left, the valuation series, the trade ledger and the state left
  behind are the same, and so is an error.  In particular a second call with the
  same input gives the output of the first.  There is no random choice in the
  backtester of the source.
\<close>

theorem run_ignores_earlier_state:
  "run self left_by_earlier_run test_days = run self left_by_another_run test_days"
  unfolding run_def
  using reset_backtest_state_forgets[of self left_by_earlier_run left_by_another_run]
  by simp

subsection \<open>C10: division by a zero risk per share\<close>

text \<open>
  C10, as amended.  \<open>PercentageRisk.decide_what_to_buy\<close> divides by the risk per
  share without a guard.  When it reaches a candidate whose stop loss equals its price
  and is not zero, the call fails with \<open>ZeroDivisionError\<close>: the candidate is neither
  skipped nor reported with the stop-loss error.  A candidate is reached when the loop
  over the candidates before it ends without an error.  So the call returns fills only
  if no candidate has a stop loss equal to its price.
\<close>

theorem pr_zero_risk_division:
  "(sort_candidates self candidates = pre @ c # post
      \<and> pr_loop self capital cash pre = Inr fills_pre
      \<and> stop_loss c = Some (Num (price c)) \<and> price c \<noteq> 0
      \<longrightarrow> pr_decide_what_to_buy self cash candidates capital = Inl ZeroDivisionError)
   \<and> (pr_decide_what_to_buy self cash candidates capital = Inr fills
      \<longrightarrow> (\<forall>c\<in>set (sort_candidates self candidates). stop_loss c \<noteq> Some (Num (price c))))"
proof (intro conjI impI ballI)
  assume h: "sort_candidates self candidates = pre @ c # post
      \<and> pr_loop self capital cash pre = Inr fills_pre
      \<and> stop_loss c = Some (Num (price c)) \<and> price c \<noteq> 0"
  then have "pr_shares self capital (cash - spent fills_pre) c = Inl ZeroDivisionError"
    by (simp add: pr_shares_zero_risk)
  with h show "pr_decide_what_to_buy self cash candidates capital = Inl ZeroDivisionError"
    by (simp add: pr_decide_what_to_buy_def pr_loop_sizing sizing_loop_append)
next
  fix c'
  assume "pr_decide_what_to_buy self cash candidates capital = Inr fills"
    and "c' \<in> set (sort_candidates self candidates)"
  then obtain m n where "pr_shares self capital m c' = Inr n"
    unfolding pr_decide_what_to_buy_def pr_loop_sizing
    using sizing_loop_Inr_all by blast
  then show "stop_loss c' \<noteq> Some (Num (price c'))"
    by (rule pr_shares_Inr_risk)
qed

text \<open>
  The theorem twice.  First \<open>a\<close> is sized and \<open>b\<close>, with price and stop loss 50, is
  reached: the call fails with \<open>ZeroDivisionError\<close>.  Then \<open>a\<close> alone: the call
  returns its fill, and the stop loss of \<open>a\<close> differs from its price.
\<close>

theorem pr_zero_risk_division_witness:
  "pr_decide_what_to_buy (PercentageRisk_init (1 / 100)) 5000
      [candidate_of ''a'' Long 100 (Some (Num 90)), candidate_of ''b'' Long 50 (Some (Num 50))]
      10000 = Inl ZeroDivisionError
   \<and> pr_decide_what_to_buy (PercentageRisk_init (1 / 100)) 5000
      [candidate_of ''a'' Long 100 (Some (Num 90))] 10000
      = Inr [\<lparr>b_symbol = ''a'', b_entry_type = Long, shares_count = 9, b_price = 100,
              trx_value = 900, fee = 4\<rparr>]
   \<and> stop_loss (candidate_of ''a'' Long 100 (Some (Num 90)))
       \<noteq> Some (Num (price (candidate_of ''a'' Long 100 (Some (Num 90)))))"
proof -
  let ?self = "PercentageRisk_init (1 / 100)"
  let ?a = "candidate_of ''a'' Long 100 (Some (Num 90))"
  let ?b = "candidate_of ''b'' Long 50 (Some (Num 50))"
  let ?fill = "\<lparr>b_symbol = ''a'', b_entry_type = Long, shares_count = 9, b_price = 100,
              trx_value = 900, fee = 4\<rparr>"
  have s: "sort_candidates ?self [?a, ?b] = [?a] @ ?b # []"
    by code_simp
  have p: "pr_loop ?self 10000 5000 [?a] = Inr [?fill]"
    by code_simp
  have z: "stop_loss ?b = Some (Num (price ?b)) \<and> price ?b \<noteq> 0"
    by code_simp
  have r: "pr_decide_what_to_buy ?self 5000 [?a] 10000 = Inr [?fill]"
    by code_simp
  from pr_zero_risk_division[of ?self "[?a, ?b]" "[?a]" ?b "[]" 10000 5000 "[?fill]"] s p z
  have first: "pr_decide_what_to_buy ?self 5000 [?a, ?b] 10000 = Inl ZeroDivisionError"
    by blast
  have m: "?a \<in> set (sort_candidates ?self [?a])"
    by code_simp
  from pr_zero_risk_division[of ?self "[?a]" _ _ _ 10000 5000 _ "[?fill]"] r m
  have second: "stop_loss ?a \<noteq> Some (Num (price ?a))"
    by blast
  from first r second show ?thesis by blast
qed

text \<open>
  C10 as stated has the division fail for every candidate whose stop loss equals its
  price.  When both are 0 the stop loss does not pass the first test of the validation,
  and the call fails with the stop-loss error instead.
\<close>

theorem pr_zero_price_and_stop_loss:
  "pr_decide_what_to_buy (PercentageRisk_init (1 / 100)) 1000
       [candidate_of ''a'' Long 0 (Some (Num 0))] 10000 = Inl (ValueError_no_stop_loss ''a'')
   \<and> stop_loss (candidate_of ''a'' Long 0 (Some (Num 0)))
       = Some (Num (price (candidate_of ''a'' Long 0 (Some (Num 0)))))"
  by code_simp

end
